theory Spec2Isabelle
  imports Main "HOL-Library.Word"
begin

section \<open>The CloudStack driver of the cluster-orchestration host\<close>

text \<open>
  A shallow embedding of \<^verbatim>\<open>acs_driver.go\<close>. Go values that may be \<^verbatim>\<open>nil\<close>
  (pointers, \<^verbatim>\<open>error\<close>, maps) are options with \<open>None\<close> for \<^verbatim>\<open>nil\<close>; a panic is
  the left summand of the result. What the program does to its surroundings (objects it
  allocates, text it prints, requests it sends to the cloud provider) is recorded in a
  \<open>world\<close> value that every operation takes and returns. The \<^verbatim>\<open>context.Context\<close>
  argument of the driver's methods is never read and is left out.
\<close>

subsection \<open>Values of the Go runtime\<close>

type_synonym int64 = "64 word"

text \<open>An \<^verbatim>\<open>error\<close> value is known by the text its \<^verbatim>\<open>Error()\<close> method gives.\<close>

datatype error = Error (message: string)

datatype panic = TypeAssertion | NilDereference | NilMapAssignment

definition bind_panic :: "panic + 'a \<Rightarrow> ('a \<Rightarrow> panic + 'b) \<Rightarrow> panic + 'b" where
  "bind_panic m f = (case m of Inl p \<Rightarrow> Inl p | Inr x \<Rightarrow> f x)"

text \<open>
  An \<^verbatim>\<open>interface{}\<close> value with its dynamic type, and the two type assertions
  \<^verbatim>\<open>.(string)\<close> and \<^verbatim>\<open>.(int64)\<close> of \<^verbatim>\<open>getStateFromOpts\<close>: an assertion to
  another dynamic type panics.
\<close>

datatype iface = IString string | IInt64 int64 | INil

fun assert_string :: "iface \<Rightarrow> panic + string" where
  "assert_string (IString s) = Inr s"
| "assert_string _ = Inl TypeAssertion"

fun assert_int64 :: "iface \<Rightarrow> panic + int64" where
  "assert_int64 (IInt64 n) = Inr n"
| "assert_int64 _ = Inl TypeAssertion"

text \<open>
  \<^verbatim>\<open>fmt.Errorf\<close> with a format that has no verb and no argument gives an error whose
  text is the format; \<^verbatim>\<open>fmt.Printf\<close> with the verb \<^verbatim>\<open>%s\<close> on an error writes the
  error's text.
\<close>

definition Errorf :: "string \<Rightarrow> error option" where
  "Errorf fmt = Some (Error fmt)"

subsection \<open>The host's types\<close>

text \<open>
  Modelled from the spec: the record \<^verbatim>\<open>types.ClusterInfo\<close> of the orchestration host,
  whose declaration is in the host's library and not in this repository. It is the
  host-owned metadata record threaded through every lifecycle call; the fields are the
  ones of the host's declaration, and \<open>Metadata\<close> is a Go map, \<open>None\<close> when \<^verbatim>\<open>nil\<close>.
\<close>

record ClusterInfo =
  Version :: string
  ServiceAccountToken :: string
  Endpoint :: string
  Username :: string
  Password :: string
  RootCaCertificate :: string
  ClientCertificate :: string
  ClientKey :: string
  NodeCount :: int64
  Metadata :: "(string \<rightharpoonup> string) option"
  Status :: string
  CreateError :: string

text \<open>The composite literal \<^verbatim>\<open>types.ClusterInfo{}\<close>: every field at its zero value.\<close>

definition zero_ClusterInfo :: ClusterInfo where
  "zero_ClusterInfo =
     \<lparr>Version = [], ServiceAccountToken = [], Endpoint = [], Username = [], Password = [],
      RootCaCertificate = [], ClientCertificate = [], ClientKey = [], NodeCount = 0,
      Metadata = None, Status = [], CreateError = []\<rparr>"

text \<open>
  Modelled from the spec: the option bag \<^verbatim>\<open>types.DriverOptions\<close> of the host's library,
  ``a flat set of named configuration values (strings, integers)''. The driver's
  operations receive a pointer to a bag, \<open>None\<close> when \<^verbatim>\<open>nil\<close>.
\<close>

record DriverOptions =
  StringOptions :: "string \<rightharpoonup> string"
  IntOptions :: "string \<rightharpoonup> int64"

text \<open>
  Modelled from the spec: the declared expected types \<^verbatim>\<open>types.StringType\<close> and
  \<^verbatim>\<open>types.IntType\<close> of an option (``string or integer'').
\<close>

datatype optionType = StringType | IntType

text \<open>
  Modelled from the spec: \<^verbatim>\<open>options.GetValueFromDriverOptions\<close> of the host's library,
  which is not in this repository: ``lookup-by-name with a declared expected type (string
  or integer) and an optional legacy/alternate field name''; ``missing options yield the
  type's zero value (empty string / zero integer) --- no error is raised for absence''.
  The names are tried in the order given and the first one the bag holds decides. The
  bag is reached through the pointer, which the library does not guard: through a
  \<^verbatim>\<open>nil\<close> pointer the lookup of the first name panics.
\<close>

fun lookup_first :: "('k \<rightharpoonup> 'v) \<Rightarrow> 'k list \<Rightarrow> 'v option" where
  "lookup_first m [] = None"
| "lookup_first m (key # keys) =
     (case m key of Some v \<Rightarrow> Some v | None \<Rightarrow> lookup_first m keys)"

fun GetValueFromDriverOptions ::
    "DriverOptions option \<Rightarrow> optionType \<Rightarrow> string list \<Rightarrow> panic + iface" where
  "GetValueFromDriverOptions None optionType (key # keys) = Inl NilDereference"
| "GetValueFromDriverOptions None IntType [] = Inr (IInt64 0)"
| "GetValueFromDriverOptions None StringType [] = Inr (IString [])"
| "GetValueFromDriverOptions (Some driverOptions) IntType keys =
     Inr (case lookup_first (IntOptions driverOptions) keys of
            Some v \<Rightarrow> IInt64 v
          | None \<Rightarrow> IInt64 0)"
| "GetValueFromDriverOptions (Some driverOptions) StringType keys =
     Inr (case lookup_first (StringOptions driverOptions) keys of
            Some v \<Rightarrow> IString v
          | None \<Rightarrow> IString [])"

text \<open>
  Modelled from the spec: the flag descriptor \<^verbatim>\<open>types.Flag\<close> (a declared type and a
  usage text) and \<^verbatim>\<open>types.DriverFlags\<close>, the name-to-descriptor mapping of the two
  introspection calls.
\<close>

record Flag =
  Type :: optionType
  Usage :: string

record DriverFlags =
  Options :: "string \<rightharpoonup> Flag"

text \<open>
  Modelled from the spec: the capability record \<^verbatim>\<open>types.Capabilities\<close> of the host's
  library with its method \<^verbatim>\<open>AddCapability\<close>, and the four capability identifiers the
  driver names (get-version, set-version, get-cluster-size, set-cluster-size), which are
  integer constants numbered in this order in the host's declaration. The map is \<open>None\<close>
  when \<^verbatim>\<open>nil\<close>; adding to a \<^verbatim>\<open>nil\<close> map panics.
\<close>

record Capabilities =
  Capabilities :: "(int64 \<rightharpoonup> bool) option"

definition GetVersionCapability :: int64 where "GetVersionCapability = 0"
definition SetVersionCapability :: int64 where "SetVersionCapability = 1"
definition GetClusterSizeCapability :: int64 where "GetClusterSizeCapability = 2"
definition SetClusterSizeCapability :: int64 where "SetClusterSizeCapability = 3"

definition AddCapability :: "Capabilities \<Rightarrow> int64 \<Rightarrow> panic + Capabilities" where
  "AddCapability c cap =
     (case Capabilities c of
        None \<Rightarrow> Inl NilMapAssignment
      | Some m \<Rightarrow> Inr (c\<lparr>Capabilities := Some (m(cap \<mapsto> True))\<rparr>))"

text \<open>Modelled from the spec: the node-count record \<^verbatim>\<open>types.NodeCount\<close> of the host's
  library, the argument of the size operation.\<close>

record NodeCount =
  Count :: int64

subsection \<open>The cloud provider's client\<close>

text \<open>
  Modelled from the spec: the client handle of the CloudStack library, ``a client
  construction call taking (endpoint, access key, secret key, TLS-verify flag)'' that
  ``always succeeds locally (no network round-trip at construction time)''. The handle
  is known by the four values it was built from.
\<close>

record CloudStackClient =
  apiurl :: string
  apikey :: string
  secret :: string
  verifyssl :: bool

definition NewClient :: "string \<Rightarrow> string \<Rightarrow> string \<Rightarrow> bool \<Rightarrow> CloudStackClient option" where
  "NewClient url key sec verify =
     Some \<lparr>apiurl = url, apikey = key, secret = sec, verifyssl = verify\<rparr>"

text \<open>
  Modelled from the spec: the request of the ``deploy virtual machine'' call, ``taking
  (service-offering id, template id, zone id) plus settable fields (display name, name,
  network ids, project id)''. A request is the set of its named parameters, each a string
  or a list of strings; a setter stores its argument under the parameter's name.
\<close>

datatype param = PString string | PStrings "string list"

type_synonym DeployVirtualMachineParams = "string \<rightharpoonup> param"

definition NewDeployVirtualMachineParams ::
    "string \<Rightarrow> string \<Rightarrow> string \<Rightarrow> DeployVirtualMachineParams" where
  "NewDeployVirtualMachineParams serviceofferingid templateid zoneid =
     [''serviceofferingid'' \<mapsto> PString serviceofferingid,
      ''templateid'' \<mapsto> PString templateid,
      ''zoneid'' \<mapsto> PString zoneid]"

definition SetDisplayname :: "DeployVirtualMachineParams \<Rightarrow> string \<Rightarrow> DeployVirtualMachineParams" where
  "SetDisplayname p v = p(''displayname'' \<mapsto> PString v)"

definition SetName :: "DeployVirtualMachineParams \<Rightarrow> string \<Rightarrow> DeployVirtualMachineParams" where
  "SetName p v = p(''name'' \<mapsto> PString v)"

definition SetNetworkids :: "DeployVirtualMachineParams \<Rightarrow> string list \<Rightarrow> DeployVirtualMachineParams" where
  "SetNetworkids p v = p(''networkids'' \<mapsto> PStrings v)"

definition SetProjectid :: "DeployVirtualMachineParams \<Rightarrow> string \<Rightarrow> DeployVirtualMachineParams" where
  "SetProjectid p v = p(''projectid'' \<mapsto> PString v)"

definition SetServiceofferingid :: "DeployVirtualMachineParams \<Rightarrow> string \<Rightarrow> DeployVirtualMachineParams" where
  "SetServiceofferingid p v = p(''serviceofferingid'' \<mapsto> PString v)"

definition SetTemplateid :: "DeployVirtualMachineParams \<Rightarrow> string \<Rightarrow> DeployVirtualMachineParams" where
  "SetTemplateid p v = p(''templateid'' \<mapsto> PString v)"

definition SetZoneid :: "DeployVirtualMachineParams \<Rightarrow> string \<Rightarrow> DeployVirtualMachineParams" where
  "SetZoneid p v = p(''zoneid'' \<mapsto> PString v)"

subsection \<open>The surroundings of a call\<close>

text \<open>
  \<open>heap\<close> holds the \<^verbatim>\<open>ClusterInfo\<close> objects that exist; a pointer to one is its
  index, \<open>None\<close> for \<^verbatim>\<open>nil\<close>. \<open>stdout\<close> is the text printed so far, \<open>requests\<close>
  the deploy requests sent so far, each with the client that sent it.
\<close>

record world =
  heap :: "ClusterInfo list"
  stdout :: string
  requests :: "(CloudStackClient \<times> DeployVirtualMachineParams) list"

type_synonym ClusterInfo_ptr = "nat option"

text \<open>\<^verbatim>\<open>&types.ClusterInfo{...}\<close>: a new object, at an address no object has yet.\<close>

definition new_ClusterInfo :: "ClusterInfo \<Rightarrow> world \<Rightarrow> world \<times> ClusterInfo_ptr" where
  "new_ClusterInfo v w = (w\<lparr>heap := heap w @ [v]\<rparr>, Some (length (heap w)))"

definition Printf :: "string \<Rightarrow> world \<Rightarrow> world" where
  "Printf s w = w\<lparr>stdout := stdout w @ s\<rparr>"

text \<open>
  The deploy call goes to the provider, whose \<open>answer\<close> (an instance descriptor that may
  be \<^verbatim>\<open>nil\<close>, and an error that may be \<^verbatim>\<open>nil\<close>) is not decided by the program: it is
  an argument of the model, and every answer is possible. The call records the request.
\<close>

definition DeployVirtualMachine ::
    "'vm option \<times> error option \<Rightarrow> CloudStackClient \<Rightarrow> DeployVirtualMachineParams \<Rightarrow> world
      \<Rightarrow> world \<times> 'vm option \<times> error option" where
  "DeployVirtualMachine answer cs p w = (w\<lparr>requests := requests w @ [(cs, p)]\<rparr>, answer)"

subsection \<open>The driver's data\<close>

text \<open>
  The three structs of the driver. Go embeds \<^verbatim>\<open>Config\<close> in \<^verbatim>\<open>AcsSettings\<close> and
  \<^verbatim>\<open>AcsSettings\<close> in \<^verbatim>\<open>state\<close>; an embedded struct is a field named after its
  type, and \<^verbatim>\<open>d.AcsSettings.EndPoint\<close> is the field \<open>EndPoint\<close> of the field
  \<open>Config\<close> of the field \<open>AcsSettings\<close> of \<open>d\<close>.
\<close>

record Config =
  EndPoint :: string
  Access :: string
  Secret :: string

record AcsSettings =
  SSHKeyPair :: string
  ProjectID :: string
  UsePrivateIP :: bool
  ServiceOffering :: string
  TemplateID :: string
  ZoneID :: string
  NetworkID :: string
  UserData :: string
  Config :: Config

record state =
  ClusterName :: string
  Description :: string
  InitialNodeCount :: int64
  AcsSettings :: AcsSettings
  ClusterInfo :: ClusterInfo

record ACSDriver =
  driverCapabilities :: Capabilities

subsection \<open>Construction and the declared flags\<close>

definition NewDriver :: "panic + ACSDriver" where
  "NewDriver =
     (let driver = \<lparr>driverCapabilities = \<lparr>Capabilities = Some Map.empty\<rparr>\<rparr> in
      bind_panic (AddCapability (driverCapabilities driver) GetVersionCapability) (\<lambda>c.
      let driver = driver\<lparr>driverCapabilities := c\<rparr> in
      bind_panic (AddCapability (driverCapabilities driver) SetVersionCapability) (\<lambda>c.
      let driver = driver\<lparr>driverCapabilities := c\<rparr> in
      bind_panic (AddCapability (driverCapabilities driver) GetClusterSizeCapability) (\<lambda>c.
      let driver = driver\<lparr>driverCapabilities := c\<rparr> in
      bind_panic (AddCapability (driverCapabilities driver) SetClusterSizeCapability) (\<lambda>c.
      let driver = driver\<lparr>driverCapabilities := c\<rparr> in
      Inr driver)))))"

definition GetDriverCreateOptions :: "ACSDriver \<Rightarrow> DriverFlags option \<times> error option" where
  "GetDriverCreateOptions d =
     (let driverFlag = \<lparr>Options = Map.empty\<rparr>;
          driverFlag = driverFlag\<lparr>Options := (Options driverFlag)(''cluster-name'' \<mapsto>
            \<lparr>Type = StringType, Usage = ''Cluster name to be displayed in Rancher UI''\<rparr>)\<rparr>;
          driverFlag = driverFlag\<lparr>Options := (Options driverFlag)(''cloudstack-endpoint'' \<mapsto>
            \<lparr>Type = StringType, Usage = ''Define Cloudstack API endpoint''\<rparr>)\<rparr>;
          driverFlag = driverFlag\<lparr>Options := (Options driverFlag)(''cloudstack-access'' \<mapsto>
            \<lparr>Type = StringType, Usage = ''Access Key to authenticate in cloudstack''\<rparr>)\<rparr>;
          driverFlag = driverFlag\<lparr>Options := (Options driverFlag)(''cloudstack-secret'' \<mapsto>
            \<lparr>Type = StringType, Usage = ''Secret Key to authenticate in cloudstack''\<rparr>)\<rparr>;
          driverFlag = driverFlag\<lparr>Options := (Options driverFlag)(''description'' \<mapsto>
            \<lparr>Type = StringType, Usage = ''Description to project''\<rparr>)\<rparr>
      in (Some driverFlag, None))"

definition GetDriverUpdateOptions :: "ACSDriver \<Rightarrow> DriverFlags option \<times> error option" where
  "GetDriverUpdateOptions d =
     (let driverFlag = \<lparr>Options = Map.empty\<rparr>;
          driverFlag = driverFlag\<lparr>Options := (Options driverFlag)(''node-count'' \<mapsto>
            \<lparr>Type = IntType, Usage = ''Number of nodes''\<rparr>)\<rparr>
      in (Some driverFlag, None))"

subsection \<open>Settings extraction\<close>

text \<open>
  The composite literal with which \<^verbatim>\<open>getStateFromOpts\<close> starts: every field at its
  zero value but the \<open>Metadata\<close> of the embedded \<^verbatim>\<open>ClusterInfo\<close>, an empty map that
  is not \<^verbatim>\<open>nil\<close>.
\<close>

definition zero_Config :: Config where
  "zero_Config = \<lparr>EndPoint = [], Access = [], Secret = []\<rparr>"

definition zero_AcsSettings :: AcsSettings where
  "zero_AcsSettings =
     \<lparr>SSHKeyPair = [], ProjectID = [], UsePrivateIP = False, ServiceOffering = [],
      TemplateID = [], ZoneID = [], NetworkID = [], UserData = [], Config = zero_Config\<rparr>"

definition getStateFromOpts :: "DriverOptions option \<Rightarrow> panic + (state \<times> error option)" where
  "getStateFromOpts driverOptions =
     (let d = \<lparr>ClusterName = [], Description = [], InitialNodeCount = 0,
               AcsSettings = zero_AcsSettings,
               ClusterInfo = zero_ClusterInfo\<lparr>Metadata := Some Map.empty\<rparr>\<rparr> in
      bind_panic (bind_panic (GetValueFromDriverOptions driverOptions StringType
                    [''cluster-name'', ''ClusterName'']) assert_string) (\<lambda>v.
      let d = d\<lparr>ClusterName := v\<rparr> in
      bind_panic (bind_panic (GetValueFromDriverOptions driverOptions StringType
                    [''description'', ''Description'']) assert_string) (\<lambda>v.
      let d = d\<lparr>Description := v\<rparr> in
      bind_panic (bind_panic (GetValueFromDriverOptions driverOptions StringType
                    [''cloudstack-endpoint'', ''CloudstackEndPoint'']) assert_string) (\<lambda>v.
      let d = d\<lparr>AcsSettings := (AcsSettings d)\<lparr>Config := (Config (AcsSettings d))\<lparr>EndPoint := v\<rparr>\<rparr>\<rparr> in
      bind_panic (bind_panic (GetValueFromDriverOptions driverOptions StringType
                    [''cloudstack-access'']) assert_string) (\<lambda>v.
      let d = d\<lparr>AcsSettings := (AcsSettings d)\<lparr>Config := (Config (AcsSettings d))\<lparr>Access := v\<rparr>\<rparr>\<rparr> in
      bind_panic (bind_panic (GetValueFromDriverOptions driverOptions StringType
                    [''cloudstack-secret'']) assert_string) (\<lambda>v.
      let d = d\<lparr>AcsSettings := (AcsSettings d)\<lparr>Config := (Config (AcsSettings d))\<lparr>Secret := v\<rparr>\<rparr>\<rparr> in
      bind_panic (bind_panic (GetValueFromDriverOptions driverOptions IntType
                    [''node-count'', ''InitialNodeCount'']) assert_int64) (\<lambda>v.
      let d = d\<lparr>InitialNodeCount := v\<rparr> in
      Inr (d, None))))))))"

subsection \<open>Connection factory and instance provisioner\<close>

definition acsConn :: "AcsSettings \<Rightarrow> CloudStackClient option \<times> error option" where
  "acsConn c =
     (let cloudstackConnection = NewClient (EndPoint (Config c)) (Access (Config c)) (Secret (Config c)) False
      in (cloudstackConnection, None))"

definition createInstance ::
    "'vm option \<times> error option \<Rightarrow> AcsSettings \<Rightarrow> state \<Rightarrow> world
      \<Rightarrow> panic + (world \<times> 'vm option \<times> error option)" where
  "createInstance answer c s w =
     (case acsConn c of
        (cs, Some err) \<Rightarrow> Inr (w, None, Some err)
      | (cs, None) \<Rightarrow>
          (case cs of
             None \<Rightarrow> Inl NilDereference
           | Some client \<Rightarrow>
               (let p = NewDeployVirtualMachineParams (ServiceOffering c) (TemplateID c) (ZoneID c);
                    p = SetDisplayname p (ClusterName s);
                    p = SetName p (ClusterName s);
                    p = SetNetworkids p [NetworkID c];
                    p = SetProjectid p (ProjectID c);
                    p = SetServiceofferingid p (ServiceOffering c);
                    p = SetTemplateid p (TemplateID c);
                    p = SetZoneid p (ZoneID c);
                    (w, vm, err) = DeployVirtualMachine answer client p w;
                    w = (case err of
                           Some e \<Rightarrow>
                             Printf (''Error creating the new instance: '' @ message e @ [CHR 0x0A]) w
                         | None \<Rightarrow> Printf ''Success create instances'' w)
                in Inr (w, vm, None))))"

subsection \<open>The lifecycle operations\<close>

text \<open>
  Every operation takes the pointers the source takes, \<^verbatim>\<open>nil\<close> or not. The last
  argument of \<^verbatim>\<open>Create\<close>, which the source leaves unnamed, is \<open>uu\<close>.
\<close>

definition Create ::
    "'vm option \<times> error option \<Rightarrow> ACSDriver \<Rightarrow> DriverOptions option \<Rightarrow> ClusterInfo_ptr
      \<Rightarrow> world \<Rightarrow> panic + (world \<times> ClusterInfo_ptr \<times> error option)" where
  "Create answer d opts uu w =
     bind_panic (getStateFromOpts opts) (\<lambda>(state, err).
       case err of
         Some e \<Rightarrow> Inr (w, None, Some e)
       | None \<Rightarrow>
           (let (w, info) = new_ClusterInfo zero_ClusterInfo w in
            bind_panic (createInstance answer (AcsSettings state) state w) (\<lambda>(w, vm, err).
              case err of
                Some e \<Rightarrow> Inr (w, info, Some e)
              | None \<Rightarrow> Inr (w, info, None))))"

definition Update ::
    "ACSDriver \<Rightarrow> ClusterInfo_ptr \<Rightarrow> DriverOptions option \<Rightarrow> world
      \<Rightarrow> world \<times> ClusterInfo_ptr \<times> error option" where
  "Update d info opts w = (w, info, None)"

definition PostCheck ::
    "ACSDriver \<Rightarrow> ClusterInfo_ptr \<Rightarrow> world \<Rightarrow> world \<times> ClusterInfo_ptr \<times> error option" where
  "PostCheck d info w = (w, info, None)"

definition Remove :: "ACSDriver \<Rightarrow> ClusterInfo_ptr \<Rightarrow> world \<Rightarrow> world \<times> error option" where
  "Remove d info w = (w, Errorf ''Not implemented'')"

definition SetClusterSize ::
    "ACSDriver \<Rightarrow> ClusterInfo_ptr \<Rightarrow> NodeCount option \<Rightarrow> world \<Rightarrow> world \<times> error option" where
  "SetClusterSize d info count w = (w, Errorf ''Not implemented'')"

definition ETCDSave ::
    "ACSDriver \<Rightarrow> ClusterInfo_ptr \<Rightarrow> DriverOptions option \<Rightarrow> string \<Rightarrow> world
      \<Rightarrow> world \<times> error option" where
  "ETCDSave d clusterInfo opts snapshotName w = (w, Errorf ''Not implemented'')"

definition ETCDRestore ::
    "ACSDriver \<Rightarrow> ClusterInfo_ptr \<Rightarrow> DriverOptions option \<Rightarrow> string \<Rightarrow> world
      \<Rightarrow> world \<times> error option" where
  "ETCDRestore d clusterInfo opts snapshotName w = (w, None)"

definition ETCDRemoveSnapshot ::
    "ACSDriver \<Rightarrow> ClusterInfo_ptr \<Rightarrow> DriverOptions option \<Rightarrow> string \<Rightarrow> world
      \<Rightarrow> world \<times> error option" where
  "ETCDRemoveSnapshot d clusterInfo opts snapshotName w = (w, Errorf ''Not implemented'')"

section \<open>Properties\<close>

subsection \<open>What the functions compute\<close>

lemmas param_defs = NewDeployVirtualMachineParams_def SetDisplayname_def SetName_def
  SetNetworkids_def SetProjectid_def SetServiceofferingid_def SetTemplateid_def SetZoneid_def

text \<open>The six declared flags: five at creation, one at update.\<close>

lemma declared_flags:
  "\<exists>c u. GetDriverCreateOptions d = (Some c, None) \<and> GetDriverUpdateOptions d = (Some u, None) \<and>
     dom (Options c) = {''cluster-name'', ''cloudstack-endpoint'', ''cloudstack-access'',
                        ''cloudstack-secret'', ''description''} \<and>
     dom (Options u) = {''node-count''}"
  by (auto simp add: GetDriverCreateOptions_def GetDriverUpdateOptions_def Let_def)

text \<open>
  Given a bag, \<^verbatim>\<open>getStateFromOpts\<close> never panics and never fails; each of the six
  fields it assigns is the first value found under the names it passes, or the zero
  value. Given a \<^verbatim>\<open>nil\<close> pointer it panics at its first lookup, and so does
  \<^verbatim>\<open>Create\<close>, before it allocates or sends anything.
\<close>

lemma getStateFromOpts_returns:
  "getStateFromOpts (Some opts) =
     Inr (\<lparr>ClusterName =
             (case lookup_first (StringOptions opts) [''cluster-name'', ''ClusterName''] of
                Some v \<Rightarrow> v | None \<Rightarrow> []),
           Description =
             (case lookup_first (StringOptions opts) [''description'', ''Description''] of
                Some v \<Rightarrow> v | None \<Rightarrow> []),
           InitialNodeCount =
             (case lookup_first (IntOptions opts) [''node-count'', ''InitialNodeCount''] of
                Some v \<Rightarrow> v | None \<Rightarrow> 0),
           AcsSettings = zero_AcsSettings\<lparr>Config :=
             \<lparr>EndPoint =
                (case lookup_first (StringOptions opts) [''cloudstack-endpoint'', ''CloudstackEndPoint''] of
                   Some v \<Rightarrow> v | None \<Rightarrow> []),
              Access =
                (case lookup_first (StringOptions opts) [''cloudstack-access''] of
                   Some v \<Rightarrow> v | None \<Rightarrow> []),
              Secret =
                (case lookup_first (StringOptions opts) [''cloudstack-secret''] of
                   Some v \<Rightarrow> v | None \<Rightarrow> [])\<rparr>\<rparr>,
           ClusterInfo = zero_ClusterInfo\<lparr>Metadata := Some Map.empty\<rparr>\<rparr>, None)"
  by (simp add: getStateFromOpts_def bind_panic_def Let_def zero_AcsSettings_def zero_Config_def
      split: option.split)

lemma getStateFromOpts_nil:
  "getStateFromOpts None = Inl NilDereference"
  by (simp add: getStateFromOpts_def bind_panic_def)

lemma Create_nil:
  "Create answer d None uu w = Inl NilDereference"
  by (simp add: Create_def getStateFromOpts_nil bind_panic_def)

text \<open>The request after the constructor and the seven setters, whatever their order.\<close>

lemma deploy_request:
  "SetZoneid (SetTemplateid (SetServiceofferingid (SetProjectid (SetNetworkids (SetName
     (SetDisplayname (NewDeployVirtualMachineParams so t z) n) n') ns) pr) so') t') z' =
   [''name'' \<mapsto> PString n', ''displayname'' \<mapsto> PString n,
    ''serviceofferingid'' \<mapsto> PString so', ''templateid'' \<mapsto> PString t',
    ''zoneid'' \<mapsto> PString z', ''networkids'' \<mapsto> PStrings ns,
    ''projectid'' \<mapsto> PString pr]"
  by (rule ext) (simp add: param_defs)

text \<open>
  \<^verbatim>\<open>createInstance\<close> never panics and never fails: it sends one request, prints one
  of its two messages and hands the provider's descriptor on.
\<close>

lemma createInstance_returns:
  "createInstance answer c s w =
     Inr ((case snd answer of
             Some e \<Rightarrow> Printf (''Error creating the new instance: '' @ message e @ [CHR 0x0A])
           | None \<Rightarrow> Printf ''Success create instances'')
            (w\<lparr>requests := requests w @
               [(\<lparr>apiurl = EndPoint (Config c), apikey = Access (Config c),
                  secret = Secret (Config c), verifyssl = False\<rparr>,
                 [''name'' \<mapsto> PString (ClusterName s),
                  ''displayname'' \<mapsto> PString (ClusterName s),
                  ''serviceofferingid'' \<mapsto> PString (ServiceOffering c),
                  ''templateid'' \<mapsto> PString (TemplateID c),
                  ''zoneid'' \<mapsto> PString (ZoneID c),
                  ''networkids'' \<mapsto> PStrings [NetworkID c],
                  ''projectid'' \<mapsto> PString (ProjectID c)])]\<rparr>),
          fst answer, None)"
  by (cases answer)
     (simp add: createInstance_def acsConn_def NewClient_def DeployVirtualMachine_def
        deploy_request Let_def split: option.split)

text \<open>\<^verbatim>\<open>Create\<close> allocates its result, then provisions with the extracted state.\<close>

lemma Create_returns:
  "\<exists>st. getStateFromOpts (Some opts) = Inr (st, None) \<and>
     Create answer d (Some opts) uu w =
       (case createInstance answer (AcsSettings st) st (w\<lparr>heap := heap w @ [zero_ClusterInfo]\<rparr>) of
          Inr (w', vm, err) \<Rightarrow> Inr (w', Some (length (heap w)), None))"
  by (simp add: Create_def getStateFromOpts_returns bind_panic_def new_ClusterInfo_def
      createInstance_returns)


subsection \<open>The claims\<close>

text \<open>
  Claim C1. Whenever the provider answers the deploy call with an error \<open>e\<close> (and any
  instance descriptor \<open>vm\<close>, \<^verbatim>\<open>nil\<close> or not), \<^verbatim>\<open>createInstance\<close> prints
  ``Error creating the new instance: '' followed by the error's text and a newline, and
  returns the descriptor with a \<^verbatim>\<open>nil\<close> error; \<^verbatim>\<open>Create\<close> then returns a pointer to
  a new, empty \<^verbatim>\<open>ClusterInfo\<close> with a \<^verbatim>\<open>nil\<close> error. The failure reaches the caller
  in no error value.
\<close>

theorem deploy_error_not_surfaced:
  "(\<exists>w'. createInstance (vm, Some e) c s w = Inr (w', vm, None) \<and>
         stdout w' = stdout w @ ''Error creating the new instance: '' @ message e @ [CHR 0x0A] \<and>
         heap w' = heap w) \<and>
   (\<exists>w'. Create (vm, Some e) d (Some opts) uu w = Inr (w', Some (length (heap w)), None) \<and>
         heap w' = heap w @ [zero_ClusterInfo] \<and>
         stdout w' = stdout w @ ''Error creating the new instance: '' @ message e @ [CHR 0x0A])"
proof (intro conjI)
  show "\<exists>w'. createInstance (vm, Some e) c s w = Inr (w', vm, None) \<and>
         stdout w' = stdout w @ ''Error creating the new instance: '' @ message e @ [CHR 0x0A] \<and>
         heap w' = heap w"
    by (simp add: createInstance_returns Printf_def)
  obtain st where st: "getStateFromOpts (Some opts) = Inr (st, None)"
    and cr: "Create (vm, Some e) d (Some opts) uu w =
       (case createInstance (vm, Some e) (AcsSettings st) st (w\<lparr>heap := heap w @ [zero_ClusterInfo]\<rparr>) of
          Inr (w', vm, err) \<Rightarrow> Inr (w', Some (length (heap w)), None))"
    using Create_returns by blast
  show "\<exists>w'. Create (vm, Some e) d (Some opts) uu w = Inr (w', Some (length (heap w)), None) \<and>
         heap w' = heap w @ [zero_ClusterInfo] \<and>
         stdout w' = stdout w @ ''Error creating the new instance: '' @ message e @ [CHR 0x0A]"
    by (simp add: cr createInstance_returns Printf_def)
qed

text \<open>
  Claim C2. For every option bag, the settings \<^verbatim>\<open>getStateFromOpts\<close> returns have the
  CloudStack-specific fields (\<open>SSHKeyPair\<close>, \<open>ProjectID\<close>, \<open>UsePrivateIP\<close>,
  \<open>ServiceOffering\<close>, \<open>TemplateID\<close>, \<open>ZoneID\<close>, \<open>NetworkID\<close>, \<open>UserData\<close>) at
  their zero values, so the one deploy request a \<^verbatim>\<open>Create\<close> call sends has the empty
  string as service-offering id, template id, zone id and project id, and the network-id
  list whose single element is the empty string, whatever the caller supplied.
\<close>

theorem cloudstack_settings_never_assigned:
  "(\<exists>st. getStateFromOpts (Some opts) = Inr (st, None) \<and>
      SSHKeyPair (AcsSettings st) = [] \<and> ProjectID (AcsSettings st) = [] \<and>
      \<not> UsePrivateIP (AcsSettings st) \<and> ServiceOffering (AcsSettings st) = [] \<and>
      TemplateID (AcsSettings st) = [] \<and> ZoneID (AcsSettings st) = [] \<and>
      NetworkID (AcsSettings st) = [] \<and> UserData (AcsSettings st) = []) \<and>
   (\<exists>w' info cl p. Create answer d (Some opts) uu w = Inr (w', info, None) \<and>
      requests w' = requests w @ [(cl, p)] \<and>
      p ''serviceofferingid'' = Some (PString []) \<and>
      p ''templateid'' = Some (PString []) \<and>
      p ''zoneid'' = Some (PString []) \<and>
      p ''projectid'' = Some (PString []) \<and>
      p ''networkids'' = Some (PStrings [[]]))"
proof (intro conjI)
  show "\<exists>st. getStateFromOpts (Some opts) = Inr (st, None) \<and>
      SSHKeyPair (AcsSettings st) = [] \<and> ProjectID (AcsSettings st) = [] \<and>
      \<not> UsePrivateIP (AcsSettings st) \<and> ServiceOffering (AcsSettings st) = [] \<and>
      TemplateID (AcsSettings st) = [] \<and> ZoneID (AcsSettings st) = [] \<and>
      NetworkID (AcsSettings st) = [] \<and> UserData (AcsSettings st) = []"
    by (simp add: getStateFromOpts_returns zero_AcsSettings_def)
  obtain st where st: "getStateFromOpts (Some opts) = Inr (st, None)"
    and cr: "Create answer d (Some opts) uu w =
       (case createInstance answer (AcsSettings st) st (w\<lparr>heap := heap w @ [zero_ClusterInfo]\<rparr>) of
          Inr (w', vm, err) \<Rightarrow> Inr (w', Some (length (heap w)), None))"
    using Create_returns by blast
  from st have z: "ServiceOffering (AcsSettings st) = []" "TemplateID (AcsSettings st) = []"
      "ZoneID (AcsSettings st) = []" "ProjectID (AcsSettings st) = []"
      "NetworkID (AcsSettings st) = []"
    by (auto simp add: getStateFromOpts_returns zero_AcsSettings_def)
  show "\<exists>w' info cl p. Create answer d (Some opts) uu w = Inr (w', info, None) \<and>
      requests w' = requests w @ [(cl, p)] \<and>
      p ''serviceofferingid'' = Some (PString []) \<and>
      p ''templateid'' = Some (PString []) \<and>
      p ''zoneid'' = Some (PString []) \<and>
      p ''projectid'' = Some (PString []) \<and>
      p ''networkids'' = Some (PStrings [[]])"
    by (cases "snd answer") (simp_all add: cr createInstance_returns Printf_def z)
qed

text \<open>
  Claim C3. For every settings value with service-offering id \<open>S\<close>, template id
  \<open>T\<close>, zone id \<open>Z\<close> and network id \<open>W\<close>, and every state with cluster name
  \<open>N\<close>, the deploy request \<^verbatim>\<open>createInstance\<close> sends has name \<open>N\<close>, display name
  \<open>N\<close>, service-offering id \<open>S\<close>, template id \<open>T\<close>, zone id \<open>Z\<close> and the
  network ids \<open>[W]\<close>. (The request carries the settings' project id as well, and
  no other parameter.)
\<close>

theorem deploy_request_built:
  "\<exists>w' cl.
     createInstance answer
       (c\<lparr>ServiceOffering := S, TemplateID := T, ZoneID := Z, NetworkID := W\<rparr>)
       (s\<lparr>ClusterName := N\<rparr>) w = Inr (w', fst answer, None) \<and>
     requests w' = requests w @
       [(cl, [''name'' \<mapsto> PString N,
              ''displayname'' \<mapsto> PString N,
              ''serviceofferingid'' \<mapsto> PString S,
              ''templateid'' \<mapsto> PString T,
              ''zoneid'' \<mapsto> PString Z,
              ''networkids'' \<mapsto> PStrings [W],
              ''projectid'' \<mapsto> PString (ProjectID c)])]"
  by (cases "snd answer") (simp_all add: createInstance_returns Printf_def)

text \<open>
  Claim C4, as stated, fails. \<^verbatim>\<open>getStateFromOpts\<close> looks four of the six options up
  under two names, the declared one and an alternate one (\<open>ClusterName\<close>,
  \<open>Description\<close>, \<open>CloudstackEndPoint\<close>, \<open>InitialNodeCount\<close>). In the bag that holds
  only the string option \<open>ClusterName\<close>, the declared option \<open>cluster-name\<close> is absent,
  and yet the state's cluster name is the alternate's value and not the empty string.
\<close>

theorem absent_option_name_counterexample:
  "StringOptions \<lparr>StringOptions = [''ClusterName'' \<mapsto> ''legacy''], IntOptions = Map.empty\<rparr>
     ''cluster-name'' = None \<and>
   map_sum id (ClusterName \<circ> fst)
     (getStateFromOpts
        (Some \<lparr>StringOptions = [''ClusterName'' \<mapsto> ''legacy''], IntOptions = Map.empty\<rparr>))
     = Inr ''legacy''"
  by (simp add: getStateFromOpts_returns)

text \<open>
  Claim C4, amended. For every option bag, \<^verbatim>\<open>getStateFromOpts\<close> returns a state and a
  \<^verbatim>\<open>nil\<close> error, and each of the six fields whose option is absent from the bag under
  every name the code looks it up by (the declared name and, where there is one, the
  alternate name) has the zero value of its type: the empty string, or 0 for the node
  count. In particular the bag with \<open>cluster-name\<close> ``demo'', \<open>cloudstack-endpoint\<close>
  ``http://cs.local'', \<open>cloudstack-access\<close> ``AK'', \<open>cloudstack-secret\<close> ``SK'' and
  no integer option gives a state with \<open>InitialNodeCount\<close> 0 and \<open>ClusterName\<close>
  ``demo''.
\<close>

theorem absent_option_zero_value:
  "(\<exists>st. getStateFromOpts (Some opts) = Inr (st, None) \<and>
      (''cluster-name'' \<notin> dom (StringOptions opts) \<and> ''ClusterName'' \<notin> dom (StringOptions opts)
         \<longrightarrow> ClusterName st = []) \<and>
      (''description'' \<notin> dom (StringOptions opts) \<and> ''Description'' \<notin> dom (StringOptions opts)
         \<longrightarrow> Description st = []) \<and>
      (''cloudstack-endpoint'' \<notin> dom (StringOptions opts) \<and>
       ''CloudstackEndPoint'' \<notin> dom (StringOptions opts)
         \<longrightarrow> EndPoint (Config (AcsSettings st)) = []) \<and>
      (''cloudstack-access'' \<notin> dom (StringOptions opts)
         \<longrightarrow> Access (Config (AcsSettings st)) = []) \<and>
      (''cloudstack-secret'' \<notin> dom (StringOptions opts)
         \<longrightarrow> Secret (Config (AcsSettings st)) = []) \<and>
      (''node-count'' \<notin> dom (IntOptions opts) \<and> ''InitialNodeCount'' \<notin> dom (IntOptions opts)
         \<longrightarrow> InitialNodeCount st = 0)) \<and>
   (\<exists>st. getStateFromOpts
            (Some \<lparr>StringOptions = [''cluster-name'' \<mapsto> ''demo'',
                                     ''cloudstack-endpoint'' \<mapsto> ''http://cs.local'',
                                     ''cloudstack-access'' \<mapsto> ''AK'',
                                     ''cloudstack-secret'' \<mapsto> ''SK''],
                   IntOptions = Map.empty\<rparr>) = Inr (st, None) \<and>
      InitialNodeCount st = 0 \<and> ClusterName st = ''demo'')"
proof (intro conjI)
  show "\<exists>st. getStateFromOpts (Some opts) = Inr (st, None) \<and>
      (''cluster-name'' \<notin> dom (StringOptions opts) \<and> ''ClusterName'' \<notin> dom (StringOptions opts)
         \<longrightarrow> ClusterName st = []) \<and>
      (''description'' \<notin> dom (StringOptions opts) \<and> ''Description'' \<notin> dom (StringOptions opts)
         \<longrightarrow> Description st = []) \<and>
      (''cloudstack-endpoint'' \<notin> dom (StringOptions opts) \<and>
       ''CloudstackEndPoint'' \<notin> dom (StringOptions opts)
         \<longrightarrow> EndPoint (Config (AcsSettings st)) = []) \<and>
      (''cloudstack-access'' \<notin> dom (StringOptions opts)
         \<longrightarrow> Access (Config (AcsSettings st)) = []) \<and>
      (''cloudstack-secret'' \<notin> dom (StringOptions opts)
         \<longrightarrow> Secret (Config (AcsSettings st)) = []) \<and>
      (''node-count'' \<notin> dom (IntOptions opts) \<and> ''InitialNodeCount'' \<notin> dom (IntOptions opts)
         \<longrightarrow> InitialNodeCount st = 0)"
    by (simp add: getStateFromOpts_returns zero_AcsSettings_def domIff)
  show "\<exists>st. getStateFromOpts
            (Some \<lparr>StringOptions = [''cluster-name'' \<mapsto> ''demo'',
                                     ''cloudstack-endpoint'' \<mapsto> ''http://cs.local'',
                                     ''cloudstack-access'' \<mapsto> ''AK'',
                                     ''cloudstack-secret'' \<mapsto> ''SK''],
                   IntOptions = Map.empty\<rparr>) = Inr (st, None) \<and>
      InitialNodeCount st = 0 \<and> ClusterName st = ''demo''"
    by (simp add: getStateFromOpts_returns)
qed

text \<open>The amended claim C4 at the empty bag, where all six options are absent.\<close>

theorem absent_option_zero_value_witness:
  "\<exists>st. getStateFromOpts (Some \<lparr>StringOptions = Map.empty, IntOptions = Map.empty\<rparr>) =
       Inr (st, None) \<and>
     ClusterName st = [] \<and> Description st = [] \<and> EndPoint (Config (AcsSettings st)) = [] \<and>
     Access (Config (AcsSettings st)) = [] \<and> Secret (Config (AcsSettings st)) = [] \<and>
     InitialNodeCount st = 0"
  using absent_option_zero_value [where opts = "\<lparr>StringOptions = Map.empty, IntOptions = Map.empty\<rparr>"]
  by simp

text \<open>
  Claim C5. For every driver, \<^verbatim>\<open>ClusterInfo\<close> pointer, node count, option bag and
  snapshot name, each of \<^verbatim>\<open>Remove\<close>, \<^verbatim>\<open>SetClusterSize\<close>, \<^verbatim>\<open>ETCDSave\<close> and
  \<^verbatim>\<open>ETCDRemoveSnapshot\<close> returns an error that is not \<^verbatim>\<open>nil\<close> and whose text is
  ``Not implemented'', and changes nothing.
\<close>

theorem not_implemented_operations:
  "Remove d info w = (w, Some (Error ''Not implemented'')) \<and>
   SetClusterSize d info count w = (w, Some (Error ''Not implemented'')) \<and>
   ETCDSave d info opts snapshotName w = (w, Some (Error ''Not implemented'')) \<and>
   ETCDRemoveSnapshot d info opts snapshotName w = (w, Some (Error ''Not implemented''))"
  by (simp add: Remove_def SetClusterSize_def ETCDSave_def ETCDRemoveSnapshot_def Errorf_def)

text \<open>
  Claim C6. For every \<^verbatim>\<open>ClusterInfo\<close> pointer and every option bag, \<^verbatim>\<open>Update\<close> and
  \<^verbatim>\<open>PostCheck\<close> return the very pointer they were given, with a \<^verbatim>\<open>nil\<close> error, and
  leave every object as it was.
\<close>

theorem Update_PostCheck_pass_through:
  "Update d info opts w = (w, info, None) \<and> PostCheck d info w = (w, info, None)"
  by (simp add: Update_def PostCheck_def)

text \<open>
  Claim C7, as stated, fails. The option bag reaches \<^verbatim>\<open>Create\<close> as a pointer, which
  \<^verbatim>\<open>getStateFromOpts\<close> hands to the lookup of the host's library with no guard. With
  a \<^verbatim>\<open>nil\<close> pointer the first lookup panics: \<^verbatim>\<open>Create\<close> returns neither a
  \<^verbatim>\<open>ClusterInfo\<close> nor an error, \<^verbatim>\<open>nil\<close> or not.
\<close>

theorem Create_nil_options_counterexample:
  "Create (None :: unit option, None)
     \<lparr>driverCapabilities = \<lparr>Capabilities = Some Map.empty\<rparr>\<rparr> None None
     \<lparr>heap = [], stdout = [], requests = []\<rparr> = Inl NilDereference"
  by (simp add: Create_def getStateFromOpts_def bind_panic_def)

text \<open>
  Claim C7, amended. For every input whose option-bag pointer is not \<^verbatim>\<open>nil\<close>,
  \<^verbatim>\<open>Create\<close> returns a \<^verbatim>\<open>nil\<close> error: \<^verbatim>\<open>getStateFromOpts\<close> returns a state
  and a \<^verbatim>\<open>nil\<close> error for every bag, \<^verbatim>\<open>acsConn\<close> never returns an error and
  \<^verbatim>\<open>createInstance\<close> returns a \<^verbatim>\<open>nil\<close> error whatever the provider answers, so
  neither error branch of \<^verbatim>\<open>Create\<close> is taken. The pointer returned is to an object
  allocated by the call, every field of it at its zero value, and the result does not
  depend on the \<^verbatim>\<open>ClusterInfo\<close> argument.
\<close>

theorem Create_never_fails:
  "(\<exists>st. getStateFromOpts (Some opts) = Inr (st, None)) \<and>
   snd (acsConn c) = None \<and>
   (\<exists>w' vm. createInstance answer c s w = Inr (w', vm, None)) \<and>
   (\<exists>w'. Create answer d (Some opts) uu w = Inr (w', Some (length (heap w)), None) \<and>
         heap w' = heap w @ [zero_ClusterInfo]) \<and>
   Create answer d (Some opts) uu w = Create answer d (Some opts) uu' w"
proof (intro conjI)
  show "\<exists>st. getStateFromOpts (Some opts) = Inr (st, None)"
    by (simp add: getStateFromOpts_returns)
  show "snd (acsConn c) = None"
    by (simp add: acsConn_def)
  show "\<exists>w' vm. createInstance answer c s w = Inr (w', vm, None)"
    by (simp add: createInstance_returns)
  obtain st where
    cr: "Create answer d (Some opts) uu w =
       (case createInstance answer (AcsSettings st) st (w\<lparr>heap := heap w @ [zero_ClusterInfo]\<rparr>) of
          Inr (w', vm, err) \<Rightarrow> Inr (w', Some (length (heap w)), None))"
    using Create_returns by blast
  show "\<exists>w'. Create answer d (Some opts) uu w = Inr (w', Some (length (heap w)), None) \<and>
         heap w' = heap w @ [zero_ClusterInfo]"
    by (cases "snd answer") (simp_all add: cr createInstance_returns Printf_def)
  show "Create answer d (Some opts) uu w = Create answer d (Some opts) uu' w"
    by (simp add: Create_def)
qed

text \<open>
  Claim C8. For every endpoint, access key and secret key in the settings, \<^verbatim>\<open>acsConn\<close>
  returns a client handle that is not \<^verbatim>\<open>nil\<close>, bound to these three values, and a
  \<^verbatim>\<open>nil\<close> error. It takes no part of the surroundings and changes none.
\<close>

theorem acsConn_never_fails:
  "\<exists>cl. acsConn c = (Some cl, None) \<and> apiurl cl = EndPoint (Config c) \<and>
     apikey cl = Access (Config c) \<and> secret cl = Secret (Config c)"
  by (simp add: acsConn_def NewClient_def)

text \<open>
  Claim C9. For every settings value, the client \<^verbatim>\<open>acsConn\<close> constructs has
  certificate verification off, and so has the client of the request that \<^verbatim>\<open>Create\<close>
  sends, for every option bag: no configuration input turns it on.
\<close>

theorem tls_verification_disabled:
  "(\<exists>cl. fst (acsConn c) = Some cl \<and> \<not> verifyssl cl) \<and>
   (\<exists>w' info cl p. Create answer d (Some opts) uu w = Inr (w', info, None) \<and>
      requests w' = requests w @ [(cl, p)] \<and> \<not> verifyssl cl)"
proof (intro conjI)
  show "\<exists>cl. fst (acsConn c) = Some cl \<and> \<not> verifyssl cl"
    by (simp add: acsConn_def NewClient_def)
  obtain st where
    cr: "Create answer d (Some opts) uu w =
       (case createInstance answer (AcsSettings st) st (w\<lparr>heap := heap w @ [zero_ClusterInfo]\<rparr>) of
          Inr (w', vm, err) \<Rightarrow> Inr (w', Some (length (heap w)), None))"
    using Create_returns by blast
  show "\<exists>w' info cl p. Create answer d (Some opts) uu w = Inr (w', info, None) \<and>
      requests w' = requests w @ [(cl, p)] \<and> \<not> verifyssl cl"
    by (cases "snd answer") (simp_all add: cr createInstance_returns Printf_def)
qed

text \<open>
  Claim C10. The driver \<^verbatim>\<open>NewDriver\<close> returns has a capability map whose keys are
  the four capabilities get-version, set-version, get-cluster-size and set-cluster-size,
  each set to true, and no other key.
\<close>

theorem NewDriver_capabilities:
  "\<exists>driver m. NewDriver = Inr driver \<and> Capabilities (driverCapabilities driver) = Some m \<and>
     dom m = {GetVersionCapability, SetVersionCapability,
              GetClusterSizeCapability, SetClusterSizeCapability} \<and>
     card (dom m) = 4 \<and>
     m GetVersionCapability = Some True \<and> m SetVersionCapability = Some True \<and>
     m GetClusterSizeCapability = Some True \<and> m SetClusterSizeCapability = Some True"
  by (simp add: NewDriver_def AddCapability_def bind_panic_def Let_def
      GetVersionCapability_def SetVersionCapability_def GetClusterSizeCapability_def
      SetClusterSizeCapability_def insert_commute)

end
